theory Spec2Isabelle
  imports Main
begin

section \<open>Shared vocabulary\<close>

text \<open>
  The program is a single Python module, \<^verbatim>\<open>src/main.py\<close>. Identities are the integer
  user ids of the chat transport (\<^verbatim>\<open>user_id: int\<close>). Objects of the external libraries
  (a \<^verbatim>\<open>TelegramClient\<close>, the ticket returned by \<^verbatim>\<open>qr_login()\<close>, an aiogram
  \<^verbatim>\<open>Message\<close>) are opaque: the model names each one by a natural number, so that two
  handles are the same object exactly when the numbers are equal.
\<close>

type_synonym identity = int
type_synonym client = nat
type_synonym ticket = nat
type_synonym target = nat

text \<open>
  Exceptions. Each constructor is a subclass of Python's \<^verbatim>\<open>Exception\<close>, so an
  \<^verbatim>\<open>except Exception\<close> clause and a bare \<^verbatim>\<open>except:\<close> clause catch all of them;
  \<^verbatim>\<open>except asyncio.TimeoutError\<close> catches only \<open>TimeoutError\<close> and
  \<^verbatim>\<open>except ValueError\<close> only \<open>ValueError\<close>. Exceptions outside \<^verbatim>\<open>Exception\<close>
  (task cancellation, interpreter exit) are not modelled.
\<close>

datatype exn = TimeoutError | ValueError | KeyError | OSError | OtherError

text \<open>
  The outcome of one external call is supplied by the environment: \<open>None\<close> when the call
  returns, \<open>Some e\<close> when it raises \<open>e\<close>.
\<close>

type_synonym outcome = "exn option"

section \<open>Access control gate: \<^verbatim>\<open>WhiteListManager\<close> (lines 44-96)\<close>

text \<open>
  What \<^verbatim>\<open>whitelist.json\<close> holds, as far as \<^verbatim>\<open>load_whitelist\<close> can tell:
  \<^item> \<open>Absent\<close>: \<^verbatim>\<open>WHITELIST_FILE.exists()\<close> is false;
  \<^item> \<open>Unreadable\<close>: the file exists and \<^verbatim>\<open>open\<close> raises (an \<^verbatim>\<open>OSError\<close>);
  \<^item> \<open>Corrupt\<close>: the file opens and \<^verbatim>\<open>json.load\<close> raises (a \<^verbatim>\<open>JSONDecodeError\<close>,
    which is a \<^verbatim>\<open>ValueError\<close>);
  \<^item> \<open>Stored us\<close>: the file parses to an object whose \<^verbatim>\<open>users\<close> entry is the list
    \<open>us\<close>, in file order and with whatever repetitions the file has (an object without
    that key reads as \<open>Stored []\<close>, by \<^verbatim>\<open>data.get('users', [])\<close>).
\<close>

datatype store = Absent | Unreadable | Corrupt | Stored "identity list"

text \<open>
  How one attempt to write the file ends (lines 69-70): the whole record is written;
  or \<^verbatim>\<open>open(..., 'w')\<close> raises and the file is untouched; or the file was opened, hence
  truncated, and \<^verbatim>\<open>json.dump\<close> raises, leaving a file that no longer parses.

  Line 70 writes \<^verbatim>\<open>list(self.whitelist)\<close>, the members in the order in which Python
  iterates the set. The language does not fix that order, so it comes with the outcome:
  \<open>Written rank\<close> is a write in which the members appear by increasing \<open>rank\<close> (members
  of equal rank by increasing value). Every order of a finite set is the order of some
  \<open>rank\<close>.
\<close>

datatype write_outcome = Written "identity \<Rightarrow> nat" | OpenFails | DumpFails

text \<open>
  The state of the gate: the in-memory set \<^verbatim>\<open>self.whitelist\<close>, the file
  \<^verbatim>\<open>WHITELIST_FILE\<close>, and a counter of the calls of \<^verbatim>\<open>save_whitelist\<close> made so far
  (the counter is not in the program; it is what lets a theorem say that no write was
  attempted).
\<close>

record gate =
  whitelist :: "identity set"
  WHITELIST_FILE :: store
  save_calls :: nat

text \<open>
  \<^verbatim>\<open>save_whitelist\<close> (lines 66-72). The \<^verbatim>\<open>except Exception\<close> clause only logs, so the
  function never raises.
\<close>

definition save_whitelist :: "gate \<Rightarrow> write_outcome \<Rightarrow> gate" where
  "save_whitelist g w =
     g\<lparr>WHITELIST_FILE :=
          (case w of
             Written rank \<Rightarrow> Stored (sort_key rank (sorted_list_of_set (whitelist g)))
           | OpenFails \<Rightarrow> WHITELIST_FILE g
           | DumpFails \<Rightarrow> Corrupt),
        save_calls := Suc (save_calls g)\<rparr>"

text \<open>
  The \<^verbatim>\<open>try\<close> block of \<^verbatim>\<open>load_whitelist\<close> (lines 54-61): \<open>Inl e\<close> when it raises \<open>e\<close>,
  else the state it leaves.
\<close>

definition load_whitelist_try :: "gate \<Rightarrow> write_outcome \<Rightarrow> exn + gate" where
  "load_whitelist_try g w =
     (case WHITELIST_FILE g of
        Stored us \<Rightarrow> Inr (g\<lparr>whitelist := set us\<rparr>)
      | Unreadable \<Rightarrow> Inl OSError
      | Corrupt \<Rightarrow> Inl ValueError
      | Absent \<Rightarrow> Inr (save_whitelist (g\<lparr>whitelist := {}\<rparr>) w))"

text \<open>
  \<^verbatim>\<open>load_whitelist\<close> (lines 51-64): the \<^verbatim>\<open>except Exception\<close> clause (lines 62-64) logs
  and sets \<^verbatim>\<open>self.whitelist = set()\<close>; it does not call \<^verbatim>\<open>save_whitelist\<close>. The result
  is a sum so that "the call returns" is a statement: \<open>Inl\<close> would be an exception
  leaving the function.
\<close>

definition load_whitelist :: "gate \<Rightarrow> write_outcome \<Rightarrow> exn + gate" where
  "load_whitelist g w =
     (case load_whitelist_try g w of
        Inr g' \<Rightarrow> Inr g'
      | Inl e \<Rightarrow> Inr (g\<lparr>whitelist := {}\<rparr>))"

text \<open>\<^verbatim>\<open>__init__\<close> (lines 47-49), run once at import time (line 108).\<close>

definition init_gate :: "store \<Rightarrow> write_outcome \<Rightarrow> exn + gate" where
  "init_gate f w = load_whitelist \<lparr>whitelist = {}, WHITELIST_FILE = f, save_calls = 0\<rparr> w"

text \<open>\<^verbatim>\<open>is_allowed\<close> (lines 74-76).\<close>

definition is_allowed :: "gate \<Rightarrow> identity \<Rightarrow> bool" where
  "is_allowed g user_id = (user_id \<in> whitelist g)"

text \<open>\<^verbatim>\<open>add_user\<close> (lines 78-84): the returned flag and the state left.\<close>

definition add_user :: "gate \<Rightarrow> write_outcome \<Rightarrow> identity \<Rightarrow> bool \<times> gate" where
  "add_user g w user_id =
     (if user_id \<notin> whitelist g
      then (True, save_whitelist (g\<lparr>whitelist := insert user_id (whitelist g)\<rparr>) w)
      else (False, g))"

text \<open>\<^verbatim>\<open>remove_user\<close> (lines 86-92).\<close>

definition remove_user :: "gate \<Rightarrow> write_outcome \<Rightarrow> identity \<Rightarrow> bool \<times> gate" where
  "remove_user g w user_id =
     (if user_id \<in> whitelist g
      then (True, save_whitelist (g\<lparr>whitelist := whitelist g - {user_id}\<rparr>) w)
      else (False, g))"

text \<open>\<^verbatim>\<open>get_all_users\<close> (lines 94-96): \<^verbatim>\<open>sorted(list(self.whitelist))\<close>.\<close>

definition get_all_users :: "gate \<Rightarrow> identity list" where
  "get_all_users g = sorted_list_of_set (whitelist g)"

section \<open>Session lifecycle manager: \<^verbatim>\<open>WorkingSessionManager\<close> (lines 110-226)\<close>

text \<open>
  One entry of \<^verbatim>\<open>active_sessions\<close> (the dictionary built at lines 146-151).
  \<^verbatim>\<open>created_at\<close> is a clock reading in seconds.
\<close>

record session =
  client :: client
  qr_login :: ticket
  created_at :: int
  message :: target

text \<open>\<^verbatim>\<open>WorkingSessionManager.__init__\<close> (lines 111-113): two dictionaries keyed by user id.\<close>

record manager =
  active_sessions :: "identity \<rightharpoonup> session"
  user_messages :: "identity \<rightharpoonup> target"

definition new_manager :: manager where
  "new_manager = \<lparr>active_sessions = Map.empty, user_messages = Map.empty\<rparr>"

text \<open>
  The second component of what \<^verbatim>\<open>create_qr_session\<close> returns: the login URL, or the
  text of the exception that stopped it.
\<close>

datatype qr_result = QrUrl string | QrError exn

text \<open>
  The texts the program sends, one constructor per literal of the source (the line of
  the literal is given; the wording is Russian in the source).
\<close>

datatype reply =
    WaitingForScan            \<comment> \<open>line 170\<close>
  | ScannedChecking           \<comment> \<open>line 177\<close>
  | AuthNotCompleted          \<comment> \<open>line 184: "authorization not completed, confirm the login in Telegram"\<close>
  | AuthSucceeded             \<comment> \<open>line 187\<close>
  | SessionString string      \<comment> \<open>line 202: the credential, inline\<close>
  | WaitTimedOut              \<comment> \<open>line 208\<close>
  | ErrorText exn             \<comment> \<open>lines 212, 378, 403: the text of the exception\<close>
  | AccessDenied              \<comment> \<open>lines 247-251\<close>
  | WelcomeNotListed          \<comment> \<open>lines 267-272\<close>
  | StartMenu                 \<comment> \<open>lines 279-284\<close>
  | NoAccessAlert             \<comment> \<open>line 292\<close>
  | Ack                       \<comment> \<open>line 295: the empty callback answer\<close>
  | CreatingQr                \<comment> \<open>line 296\<close>
  | QrPhoto qr_result        \<comment> \<open>lines 312-321: the rendered login token\<close>
  | QrFailed qr_result       \<comment> \<open>line 326\<close>
  | AdminOnly                 \<comment> \<open>lines 338, 359, 384, 425\<close>
  | WhitelistEmpty            \<comment> \<open>line 344\<close>
  | WhitelistListing "identity list"  \<comment> \<open>lines 348-353\<close>
  | AddUsage                  \<comment> \<open>line 365\<close>
  | Added identity            \<comment> \<open>line 371\<close>
  | AlreadyListed identity    \<comment> \<open>line 373\<close>
  | BadIdFormat               \<comment> \<open>lines 376, 401\<close>
  | RemoveUsage               \<comment> \<open>line 390\<close>
  | Removed identity          \<comment> \<open>line 396\<close>
  | NotListed identity        \<comment> \<open>line 398\<close>
  | NoAccess                  \<comment> \<open>line 411\<close>
  | SessionActive int         \<comment> \<open>line 417: seconds since creation\<close>
  | NoActiveSession           \<comment> \<open>lines 419, 437\<close>
  | DebugInfo bool            \<comment> \<open>line 433\<close>
  | DebugError exn            \<comment> \<open>line 435\<close>
  | HelpText bool             \<comment> \<open>lines 441-466: with the admin section or without\<close>

text \<open>
  The calls the program makes on its collaborators. A trace is the list of the calls
  made, in order, each with its outcome: a call that raised is in the trace with
  \<open>Some e\<close>, so "invoked" and "delivered" are different statements about a trace.
  \<open>EditText m\<close> is \<^verbatim>\<open>edit_text\<close> on the status message that \<^verbatim>\<open>m.answer\<close> returned
  (or on \<open>m\<close> itself at lines 296 and 326).
\<close>

datatype action =
    Answer target reply
  | EditText target reply
  | AnswerDocument target string
  | AnswerPhoto target reply
  | CallbackAnswer reply
  | WaitFor ticket nat
  | Sleep nat
  | IsUserAuthorized client
  | SessionSave client
  | Connect client
  | QrLogin client
  | Disconnect client
  | CreateTask identity

type_synonym event = "action \<times> outcome"

text \<open>
  A block of statements that may raise: its result (\<open>Inl e\<close> when it raised \<open>e\<close>) and the
  calls it made. \<open>call\<close> is one awaited call without a result, \<open>call_value\<close> one with
  a result, \<open>seq\<close> is sequential composition: the rest does not run after a raise.
\<close>

type_synonym 'a block = "(exn + 'a) \<times> event list"

definition call :: "action \<Rightarrow> outcome \<Rightarrow> unit block" where
  "call a r = ((case r of None \<Rightarrow> Inr () | Some e \<Rightarrow> Inl e), [(a, r)])"

definition call_value :: "action \<Rightarrow> exn + 'a \<Rightarrow> 'a block" where
  "call_value a r = (r, [(a, (case r of Inl e \<Rightarrow> Some e | Inr v \<Rightarrow> None))])"

definition seq :: "'a block \<Rightarrow> ('a \<Rightarrow> 'b block) \<Rightarrow> 'b block" where
  "seq m f =
     (case m of
        (Inl e, tr) \<Rightarrow> (Inl e, tr)
      | (Inr v, tr) \<Rightarrow> (case f v of (r, tr') \<Rightarrow> (r, tr @ tr')))"

text \<open>\<^verbatim>\<open>del d[k]\<close> on a dictionary: \<^verbatim>\<open>KeyError\<close> when the key is absent.\<close>

definition py_del :: "('k \<rightharpoonup> 'v) \<Rightarrow> 'k \<Rightarrow> exn + ('k \<rightharpoonup> 'v)" where
  "py_del d k = (if d k = None then Inl KeyError else Inr (d(k := None)))"

subsection \<open>\<^verbatim>\<open>cleanup_session\<close> (lines 216-226)\<close>

text \<open>
  The argument \<open>d\<close> is the outcome of \<^verbatim>\<open>disconnect()\<close> at line 220; the bare
  \<^verbatim>\<open>except: pass\<close> swallows it. The function is run as one step: no other task is
  scheduled between its lines.
\<close>

definition cleanup_session ::
  "manager \<Rightarrow> outcome \<Rightarrow> identity \<Rightarrow> (exn + unit) \<times> manager \<times> event list" where
  "cleanup_session st d user_id =
     (case (case active_sessions st user_id of
              None \<Rightarrow> (Inr (), st, [])
            | Some data \<Rightarrow>
                (case py_del (active_sessions st) user_id of
                   Inl e \<Rightarrow> (Inl e, st, [(Disconnect (client data), d)])
                 | Inr m \<Rightarrow> (Inr (), st\<lparr>active_sessions := m\<rparr>, [(Disconnect (client data), d)])))
      of
        (Inl e, st1, tr) \<Rightarrow> (Inl e, st1, tr)
      | (Inr u, st1, tr) \<Rightarrow>
          (case user_messages st1 user_id of
             None \<Rightarrow> (Inr (), st1, tr)
           | Some m \<Rightarrow>
               (case py_del (user_messages st1) user_id of
                  Inl e \<Rightarrow> (Inl e, st1, tr)
                | Inr um \<Rightarrow> (Inr (), st1\<lparr>user_messages := um\<rparr>, tr))))"

subsection \<open>\<^verbatim>\<open>create_qr_session\<close> (lines 115-159)\<close>

text \<open>
  What the collaborators do during one call: the outcome of the old client's
  \<^verbatim>\<open>disconnect()\<close> (line 121), the object \<^verbatim>\<open>TelegramClient(...)\<close> constructs (line 140),
  the outcome of \<^verbatim>\<open>connect()\<close> (line 141), the ticket and the URL of \<^verbatim>\<open>qr_login()\<close>
  (line 144), and the clock (line 149). The device profile drawn at line 138 only
  decorates the client and is left out.
\<close>

record create_env =
  disconnect_121 :: outcome
  new_client :: client
  connect_141 :: outcome
  qr_login_144 :: "exn + ticket \<times> string"
  now_149 :: int

text \<open>
  The \<^verbatim>\<open>try\<close> block (lines 118-155). Lines 119-123 call \<^verbatim>\<open>disconnect()\<close> on the old
  record's client and swallow what it raises; they do not touch \<^verbatim>\<open>active_sessions\<close>.
  The table is written only at lines 146-153, after \<^verbatim>\<open>connect()\<close> and \<^verbatim>\<open>qr_login()\<close>
  have returned.
\<close>

definition create_qr_session_try ::
  "manager \<Rightarrow> create_env \<Rightarrow> identity \<Rightarrow> target \<Rightarrow> (exn + manager \<times> string) \<times> event list" where
  "create_qr_session_try st env user_id msg =
     (case seq (case active_sessions st user_id of
                  Some old \<Rightarrow> (Inr (), [(Disconnect (client old), disconnect_121 env)])
                | None \<Rightarrow> (Inr (), []))
            (\<lambda>u. seq (call (Connect (new_client env)) (connect_141 env))
            (\<lambda>u. call_value (QrLogin (new_client env)) (qr_login_144 env)))
      of
        (Inl e, tr) \<Rightarrow> (Inl e, tr)
      | (Inr (t, url), tr) \<Rightarrow>
          (Inr (st\<lparr>active_sessions := (active_sessions st)(user_id \<mapsto>
                       \<lparr>client = new_client env, qr_login = t,
                        created_at = now_149 env, message = msg\<rparr>),
                    user_messages := (user_messages st)(user_id \<mapsto> msg)\<rparr>, url), tr))"

text \<open>
  The whole function: the \<^verbatim>\<open>except Exception\<close> clause (lines 157-159) turns a raise
  into \<^verbatim>\<open>(False, text)\<close> and leaves the manager as the \<^verbatim>\<open>try\<close> block found it.
\<close>

definition create_qr_session ::
  "manager \<Rightarrow> create_env \<Rightarrow> identity \<Rightarrow> target \<Rightarrow> (bool \<times> qr_result) \<times> manager \<times> event list" where
  "create_qr_session st env user_id msg =
     (case create_qr_session_try st env user_id msg of
        (Inr (st', url), tr) \<Rightarrow> ((True, QrUrl url), st', tr)
      | (Inl e, tr) \<Rightarrow> ((False, QrError e), st, tr))"

subsection \<open>\<^verbatim>\<open>start_qr_monitoring\<close> (lines 161-214)\<close>

text \<open>
  What the ticket does, in seconds from the start of the wait: it resolves, or its
  \<^verbatim>\<open>wait()\<close> raises, or nothing ever happens.
\<close>

datatype wait_behaviour = ResolvesAt nat | FailsAt nat exn | Never

text \<open>
  \<^verbatim>\<open>asyncio.wait_for(aw, timeout)\<close>: the outcome of \<open>aw\<close> if it comes before the
  deadline, \<^verbatim>\<open>TimeoutError\<close> otherwise. An event at the very second of the deadline is
  given to the timeout here; no theorem below speaks about that instant.
\<close>

definition wait_for :: "wait_behaviour \<Rightarrow> nat \<Rightarrow> outcome" where
  "wait_for w timeout =
     (case w of
        ResolvesAt s \<Rightarrow> if s < timeout then None else Some TimeoutError
      | FailsAt s e \<Rightarrow> if s < timeout then Some e else Some TimeoutError
      | Never \<Rightarrow> Some TimeoutError)"

text \<open>
  What the collaborators do during one run of the monitoring task; the number in a
  field's name is the line of the call it decides. \<open>answer_except\<close> is the
  \<^verbatim>\<open>answer\<close> of whichever handler runs (line 208 or 212).
\<close>

record monitor_env =
  answer_170 :: outcome
  qr_wait :: wait_behaviour
  edit_text_177 :: outcome
  is_user_authorized_180 :: "exn + bool"
  edit_text_184 :: outcome
  edit_text_187 :: outcome
  session_save_189 :: "exn + string"
  answer_document_195 :: outcome
  answer_202 :: outcome
  answer_except :: outcome
  disconnect_220 :: outcome

text \<open>The \<^verbatim>\<open>try\<close> block (lines 170-203), on the record captured at line 166.\<close>

definition monitor_try :: "monitor_env \<Rightarrow> session \<Rightarrow> unit block" where
  "monitor_try env data =
     seq (call (Answer (message data) WaitingForScan) (answer_170 env))
     (\<lambda>u. seq (call (WaitFor (qr_login data) 120) (wait_for (qr_wait env) 120))
     (\<lambda>u. seq (call (EditText (message data) ScannedChecking) (edit_text_177 env))
     (\<lambda>u. seq (call (Sleep 3) None)
     (\<lambda>u. seq (call_value (IsUserAuthorized (client data)) (is_user_authorized_180 env))
     (\<lambda>is_authorized.
        if \<not> is_authorized
        then call (EditText (message data) AuthNotCompleted) (edit_text_184 env)
        else
          seq (call (EditText (message data) AuthSucceeded) (edit_text_187 env))
          (\<lambda>u. seq (call_value (SessionSave (client data)) (session_save_189 env))
          (\<lambda>session_string.
             seq (call (AnswerDocument (message data) session_string)
                    (answer_document_195 env))
          (\<lambda>u. call (Answer (message data) (SessionString session_string))
                  (answer_202 env)))))))))"

text \<open>
  The two handlers (lines 205-212). Both look the delivery target up in
  \<^verbatim>\<open>self.user_messages\<close> as it is when the handler runs. A raise inside a handler
  leaves the function after the \<^verbatim>\<open>finally\<close> block has run.
\<close>

definition monitor_except :: "manager \<Rightarrow> monitor_env \<Rightarrow> identity \<Rightarrow> exn \<Rightarrow> unit block" where
  "monitor_except st env user_id e =
     (case e of
        TimeoutError \<Rightarrow>
          (case user_messages st user_id of
             Some m \<Rightarrow> call (Answer m WaitTimedOut) (answer_except env)
           | None \<Rightarrow> (Inr (), []))
      | _ \<Rightarrow>
          (case user_messages st user_id of
             Some m \<Rightarrow> call (Answer m (ErrorText e)) (answer_except env)
           | None \<Rightarrow> (Inr (), [])))"

text \<open>
  Lines 169-214 for a task that captured \<open>data\<close> at line 166. The \<^verbatim>\<open>try\<close> block works
  on \<open>data\<close> alone and suspends at every \<^verbatim>\<open>await\<close>, so other tasks may change the
  manager while it runs; \<open>st\<close> is the manager as it is when the \<^verbatim>\<open>try\<close> block is left,
  which is what the handlers and \<^verbatim>\<open>cleanup_session\<close> (line 214) read. From there to the
  end the task is run as one step.
\<close>

definition start_qr_monitoring_from ::
  "manager \<Rightarrow> monitor_env \<Rightarrow> identity \<Rightarrow> session \<Rightarrow> (exn + unit) \<times> manager \<times> event list" where
  "start_qr_monitoring_from st env user_id data =
     (case monitor_try env data of (r, tr) \<Rightarrow>
      (case (case r of
               Inr u \<Rightarrow> (Inr (), [])
             | Inl e \<Rightarrow> monitor_except st env user_id e) of (r2, tr2) \<Rightarrow>
      (case cleanup_session st (disconnect_220 env) user_id of (r3, st', tr3) \<Rightarrow>
         ((case r3 of Inl e \<Rightarrow> Inl e | Inr u \<Rightarrow> r2), st', tr @ tr2 @ tr3))))"

text \<open>
  The whole function when no other task changes the manager while it runs: lines
  163-166 read the record, the rest is as above on the same manager.
\<close>

definition start_qr_monitoring ::
  "manager \<Rightarrow> monitor_env \<Rightarrow> identity \<Rightarrow> (exn + unit) \<times> manager \<times> event list" where
  "start_qr_monitoring st env user_id =
     (case active_sessions st user_id of
        None \<Rightarrow> (Inr (), st, [])
      | Some data \<Rightarrow> start_qr_monitoring_from st env user_id data)"

section \<open>Command handlers and the admission middleware (lines 230-466)\<close>

text \<open>
  The two managers built at lines 108 and 228, and the configured \<^verbatim>\<open>ADMIN_ID\<close>
  (line 39), which no code path changes.
\<close>

record bot =
  whitelist_manager :: gate
  manager :: manager
  ADMIN_ID :: identity

text \<open>
  An incoming \<^verbatim>\<open>Message\<close>: the sender, the text (\<^verbatim>\<open>event.text\<close> is \<^verbatim>\<open>None\<close> for a
  message without text) and the chat object that \<^verbatim>\<open>answer\<close> writes to.
\<close>

record msg =
  from_user :: identity
  event_text :: "string option"
  chat :: target

text \<open>
  What the handlers take from outside: Python's \<^verbatim>\<open>str.split()\<close> without arguments
  (the words of a text, separated by white space as Python's string type defines it),
  Python's \<^verbatim>\<open>int(...)\<close> on a string (\<open>None\<close> where it raises \<^verbatim>\<open>ValueError\<close>), the
  outcome of the file write of a mutation, the clock at line 416 and the outcome of
  \<^verbatim>\<open>is_user_authorized()\<close> at line 432. A handler's own \<^verbatim>\<open>answer\<close> calls are taken to
  return.
\<close>

record handler_env =
  py_split :: "string \<Rightarrow> string list"
  py_int :: "string \<Rightarrow> int option"
  write_69 :: write_outcome
  now_416 :: int
  is_user_authorized_432 :: "exn + bool"

definition sent :: "action \<Rightarrow> event" where
  "sent a = (a, None)"

text \<open>\<^verbatim>\<open>str.lower()\<close> on the ASCII letters.\<close>

definition lower_char :: "char \<Rightarrow> char" where
  "lower_char c =
     (if 65 \<le> (of_char c :: nat) \<and> (of_char c :: nat) \<le> 90
      then char_of ((of_char c :: nat) + 32) else c)"

definition lower :: "string \<Rightarrow> string" where
  "lower s = map lower_char s"

text \<open>Line 237.\<close>

definition public_commands :: "string list" where
  "public_commands = [''start'', ''help'']"

text \<open>
  Lines 240-242: the text is non-empty and starts with a slash, and
  \<^verbatim>\<open>text[1:].split(' ')[0].lower()\<close>, the text after the slash up to the first blank,
  in lower case, is a public command.
\<close>

definition is_public_command :: "msg \<Rightarrow> bool" where
  "is_public_command event =
     (case event_text event of
        None \<Rightarrow> False
      | Some [] \<Rightarrow> False
      | Some (c # cs) \<Rightarrow>
          c = CHR ''/'' \<and>
          lower (takeWhile (\<lambda>x. x \<noteq> CHR '' '') cs) \<in> set public_commands)"

text \<open>
  \<^verbatim>\<open>whitelist_middleware\<close> (lines 231-254), on the handler that the router has chosen
  for the message.
\<close>

definition whitelist_middleware ::
  "(bot \<Rightarrow> msg \<Rightarrow> bot \<times> event list) \<Rightarrow> bot \<Rightarrow> msg \<Rightarrow> bot \<times> event list" where
  "whitelist_middleware handler b event =
     (if is_public_command event then handler b event
      else if \<not> is_allowed (whitelist_manager b) (from_user event)
      then (b, [sent (Answer (chat event) AccessDenied)])
      else handler b event)"

text \<open>\<^verbatim>\<open>is_admin\<close> (lines 330-332).\<close>

definition is_admin :: "bot \<Rightarrow> identity \<Rightarrow> bool" where
  "is_admin b user_id = (user_id = ADMIN_ID b)"

text \<open>\<^verbatim>\<open>cmd_start\<close> (lines 256-284). The conversation state it clears is not modelled.\<close>

definition cmd_start :: "handler_env \<Rightarrow> bot \<Rightarrow> msg \<Rightarrow> bot \<times> event list" where
  "cmd_start env b m =
     (if \<not> is_allowed (whitelist_manager b) (from_user m)
      then (b, [sent (Answer (chat m) WelcomeNotListed)])
      else (b, [sent (Answer (chat m) StartMenu)]))"

text \<open>\<^verbatim>\<open>cmd_whitelist\<close> (lines 334-353).\<close>

definition cmd_whitelist :: "handler_env \<Rightarrow> bot \<Rightarrow> msg \<Rightarrow> bot \<times> event list" where
  "cmd_whitelist env b m =
     (if \<not> is_admin b (from_user m) then (b, [sent (Answer (chat m) AdminOnly)])
      else if get_all_users (whitelist_manager b) = []
      then (b, [sent (Answer (chat m) WhitelistEmpty)])
      else (b, [sent (Answer (chat m) (WhitelistListing (get_all_users (whitelist_manager b))))]))"

text \<open>
  \<^verbatim>\<open>cmd_add_user\<close> (lines 355-378). A message without text makes \<^verbatim>\<open>message.text.split()\<close>
  raise, which the \<^verbatim>\<open>except Exception\<close> clause reports.
\<close>

definition cmd_add_user :: "handler_env \<Rightarrow> bot \<Rightarrow> msg \<Rightarrow> bot \<times> event list" where
  "cmd_add_user env b m =
     (if \<not> is_admin b (from_user m) then (b, [sent (Answer (chat m) AdminOnly)])
      else
        (case event_text m of
           None \<Rightarrow> (b, [sent (Answer (chat m) (ErrorText OtherError))])
         | Some t \<Rightarrow>
             (if length (py_split env t) < 2 then (b, [sent (Answer (chat m) AddUsage)])
              else
                (case py_int env (py_split env t ! 1) of
                   None \<Rightarrow> (b, [sent (Answer (chat m) BadIdFormat)])
                 | Some user_id \<Rightarrow>
                     (case add_user (whitelist_manager b) (write_69 env) user_id of
                        (True, g) \<Rightarrow>
                          (b\<lparr>whitelist_manager := g\<rparr>, [sent (Answer (chat m) (Added user_id))])
                      | (False, g) \<Rightarrow>
                          (b\<lparr>whitelist_manager := g\<rparr>,
                           [sent (Answer (chat m) (AlreadyListed user_id))]))))))"

text \<open>\<^verbatim>\<open>cmd_remove_user\<close> (lines 380-403).\<close>

definition cmd_remove_user :: "handler_env \<Rightarrow> bot \<Rightarrow> msg \<Rightarrow> bot \<times> event list" where
  "cmd_remove_user env b m =
     (if \<not> is_admin b (from_user m) then (b, [sent (Answer (chat m) AdminOnly)])
      else
        (case event_text m of
           None \<Rightarrow> (b, [sent (Answer (chat m) (ErrorText OtherError))])
         | Some t \<Rightarrow>
             (if length (py_split env t) < 2 then (b, [sent (Answer (chat m) RemoveUsage)])
              else
                (case py_int env (py_split env t ! 1) of
                   None \<Rightarrow> (b, [sent (Answer (chat m) BadIdFormat)])
                 | Some user_id \<Rightarrow>
                     (case remove_user (whitelist_manager b) (write_69 env) user_id of
                        (True, g) \<Rightarrow>
                          (b\<lparr>whitelist_manager := g\<rparr>, [sent (Answer (chat m) (Removed user_id))])
                      | (False, g) \<Rightarrow>
                          (b\<lparr>whitelist_manager := g\<rparr>,
                           [sent (Answer (chat m) (NotListed user_id))]))))))"

text \<open>\<^verbatim>\<open>cmd_check\<close> (lines 405-419).\<close>

definition cmd_check :: "handler_env \<Rightarrow> bot \<Rightarrow> msg \<Rightarrow> bot \<times> event list" where
  "cmd_check env b m =
     (if \<not> is_allowed (whitelist_manager b) (from_user m)
      then (b, [sent (Answer (chat m) NoAccess)])
      else
        (case active_sessions (manager b) (from_user m) of
           Some data \<Rightarrow>
             (b, [sent (Answer (chat m) (SessionActive (now_416 env - created_at data)))])
         | None \<Rightarrow> (b, [sent (Answer (chat m) NoActiveSession)])))"

text \<open>\<^verbatim>\<open>cmd_debug\<close> (lines 421-437).\<close>

definition cmd_debug :: "handler_env \<Rightarrow> bot \<Rightarrow> msg \<Rightarrow> bot \<times> event list" where
  "cmd_debug env b m =
     (if \<not> is_admin b (from_user m) then (b, [sent (Answer (chat m) AdminOnly)])
      else
        (case active_sessions (manager b) (from_user m) of
           Some data \<Rightarrow>
             (case is_user_authorized_432 env of
                Inr is_auth \<Rightarrow>
                  (b, [sent (IsUserAuthorized (client data)),
                       sent (Answer (chat m) (DebugInfo is_auth))])
              | Inl e \<Rightarrow>
                  (b, [(IsUserAuthorized (client data), Some e),
                       sent (Answer (chat m) (DebugError e))]))
         | None \<Rightarrow> (b, [sent (Answer (chat m) NoActiveSession)])))"

text \<open>\<^verbatim>\<open>cmd_help\<close> (lines 439-466).\<close>

definition cmd_help :: "handler_env \<Rightarrow> bot \<Rightarrow> msg \<Rightarrow> bot \<times> event list" where
  "cmd_help env b m = (b, [sent (Answer (chat m) (HelpText (is_admin b (from_user m))))])"

text \<open>
  The message handlers the module registers, in the order of their decorators (lines
  256, 334, 355, 380, 405, 421, 439).
\<close>

datatype handler =
  CmdStart | CmdWhitelist | CmdAddUser | CmdRemoveUser | CmdCheck | CmdDebug | CmdHelp

fun run_handler :: "handler \<Rightarrow> handler_env \<Rightarrow> bot \<Rightarrow> msg \<Rightarrow> bot \<times> event list" where
  "run_handler CmdStart = cmd_start"
| "run_handler CmdWhitelist = cmd_whitelist"
| "run_handler CmdAddUser = cmd_add_user"
| "run_handler CmdRemoveUser = cmd_remove_user"
| "run_handler CmdCheck = cmd_check"
| "run_handler CmdDebug = cmd_debug"
| "run_handler CmdHelp = cmd_help"

text \<open>
  A message for which the router has chosen handler \<open>h\<close>: the middleware is registered
  on the router's message observer (line 231), so it wraps every one of them.
\<close>

definition on_message :: "handler \<Rightarrow> handler_env \<Rightarrow> bot \<Rightarrow> msg \<Rightarrow> bot \<times> event list" where
  "on_message h env b m = whitelist_middleware (run_handler h env) b m"

text \<open>
  \<^verbatim>\<open>handle_qr_method\<close> (lines 286-326), the callback of the "create session" button:
  the only caller of \<^verbatim>\<open>create_qr_session\<close>. A callback query does not pass through the
  message middleware; the handler checks the allow-list itself (line 291).
  \<open>CreateTask\<close> is line 323, the start of the monitoring task.
\<close>

definition handle_qr_method ::
  "create_env \<Rightarrow> bot \<Rightarrow> identity \<Rightarrow> target \<Rightarrow> bot \<times> event list" where
  "handle_qr_method env b user_id m =
     (if \<not> is_allowed (whitelist_manager b) user_id
      then (b, [sent (CallbackAnswer NoAccessAlert)])
      else
        (case create_qr_session (manager b) env user_id m of
           ((success, qr_url), st, tr) \<Rightarrow>
             (if success
              then (b\<lparr>manager := st\<rparr>,
                    [sent (CallbackAnswer Ack), sent (EditText m CreatingQr)] @ tr @
                    [sent (AnswerPhoto m (QrPhoto qr_url)), sent (CreateTask user_id)])
              else (b\<lparr>manager := st\<rparr>,
                    [sent (CallbackAnswer Ack), sent (EditText m CreatingQr)] @ tr @
                    [sent (EditText m (QrFailed qr_url))]))))"

section \<open>Concrete inputs\<close>

text \<open>
  The inputs at which the theorems below are instantiated: owner 100 with one session
  in the table, and collaborators that all answer (the ticket resolves after five
  seconds, the connection is authorized).
\<close>

definition example_session :: session where
  "example_session = \<lparr>client = 1, qr_login = 7, created_at = 0, message = 10\<rparr>"

definition example_manager :: manager where
  "example_manager =
     \<lparr>active_sessions = [100 \<mapsto> example_session], user_messages = [100 \<mapsto> 10]\<rparr>"

definition example_env :: monitor_env where
  "example_env =
     \<lparr>answer_170 = None, qr_wait = ResolvesAt 5, edit_text_177 = None,
      is_user_authorized_180 = Inr True, edit_text_184 = None, edit_text_187 = None,
      session_save_189 = Inr ''1BVtsOK'', answer_document_195 = None, answer_202 = None,
      answer_except = None, disconnect_220 = None\<rparr>"

definition example_gate :: gate where
  "example_gate = \<lparr>whitelist = {1}, WHITELIST_FILE = Stored [1], save_calls = 0\<rparr>"

text \<open>An iteration order in which identity \<open>a\<close> comes before every other member.\<close>

definition first_rank :: "identity \<Rightarrow> identity \<Rightarrow> nat" where
  "first_rank a i = (if i = a then 0 else 1)"

text \<open>
  Two calls of \<^verbatim>\<open>create_qr_session\<close> for owner 100: the first builds
  \<open>example_session\<close> on client 1, the second, one second later, builds a session on
  client 2 for the delivery target 20. \<open>displaced_manager\<close> is the manager after both.
\<close>

definition first_create_env :: create_env where
  "first_create_env =
     \<lparr>disconnect_121 = None, new_client = 1, connect_141 = None,
      qr_login_144 = Inr (7, ''tg://login?token=A''), now_149 = 0\<rparr>"

definition second_create_env :: create_env where
  "second_create_env =
     \<lparr>disconnect_121 = None, new_client = 2, connect_141 = None,
      qr_login_144 = Inr (8, ''tg://login?token=B''), now_149 = 1\<rparr>"

definition displaced_manager :: manager where
  "displaced_manager =
     \<lparr>active_sessions =
        [100 \<mapsto> \<lparr>client = 2, qr_login = 8, created_at = 1, message = 20\<rparr>],
      user_messages = [100 \<mapsto> 20]\<rparr>"

text \<open>
  A bot whose allow-list holds the admin (identity 1) alone, the same bot with
  identity 100 admitted, and messages of identity 100 in chat 5.
\<close>

definition example_bot :: bot where
  "example_bot = \<lparr>whitelist_manager = example_gate, manager = new_manager, ADMIN_ID = 1\<rparr>"

definition example_bot_100 :: bot where
  "example_bot_100 =
     \<lparr>whitelist_manager = \<lparr>whitelist = {1, 100}, WHITELIST_FILE = Stored [1, 100], save_calls = 1\<rparr>,
      manager = new_manager, ADMIN_ID = 1\<rparr>"

definition example_handler_env :: handler_env where
  "example_handler_env =
     \<lparr>py_split = (\<lambda>s. if s = ''/add 100'' then [''/add'', ''100''] else [s]),
      py_int = (\<lambda>s. if s = ''100'' then Some 100 else None),
      write_69 = Written (first_rank 100),
      now_416 = 130, is_user_authorized_432 = Inr False\<rparr>"

definition message_from_100 :: "string \<Rightarrow> msg" where
  "message_from_100 t = \<lparr>from_user = 100, event_text = Some t, chat = 5\<rparr>"

section \<open>Properties of the access control gate\<close>

lemma written_list_enumerates:
  "finite A \<Longrightarrow>
   set (sort_key rank (sorted_list_of_set A)) = A \<and>
   distinct (sort_key rank (sorted_list_of_set A))"
  by simp

text \<open>
  C8. For every identity \<open>x\<close> and every state of the allow-list: after \<open>add(x)\<close>,
  \<open>isAllowed(x)\<close> is true; after \<open>remove(x)\<close>, \<open>isAllowed(x)\<close> is false; \<open>add(x)\<close> with
  \<open>x\<close> already present returns false and leaves the whole state as it was (no call of
  the save routine, file unchanged); \<open>add(x)\<close> with \<open>x\<close> absent returns true and calls
  the save routine exactly once, and when that write goes through the file holds, in
  whatever order the set is iterated, a list without repetition whose members are the
  old members and \<open>x\<close> (the allow-list being a finite set).
\<close>

theorem allowlist_round_trip:
  "is_allowed (snd (add_user g w x)) x \<and>
   \<not> is_allowed (snd (remove_user g w x)) x \<and>
   (x \<in> whitelist g \<longrightarrow> add_user g w x = (False, g)) \<and>
   (x \<notin> whitelist g \<longrightarrow>
      fst (add_user g w x) \<and>
      save_calls (snd (add_user g w x)) = Suc (save_calls g) \<and>
      (\<forall>rank. w = Written rank \<longrightarrow> finite (whitelist g) \<longrightarrow>
         (\<exists>us. WHITELIST_FILE (snd (add_user g w x)) = Stored us \<and>
               set us = insert x (whitelist g) \<and> distinct us)))"
proof -
  have "set (sort_key rank (sorted_list_of_set (insert x (whitelist g)))) =
          insert x (whitelist g) \<and>
        distinct (sort_key rank (sorted_list_of_set (insert x (whitelist g))))"
    if "finite (whitelist g)" for rank
    using that written_list_enumerates [of "insert x (whitelist g)" rank] by blast
  then have "WHITELIST_FILE (snd (add_user g (Written rank) x)) =
               Stored (sort_key rank (sorted_list_of_set (insert x (whitelist g)))) \<and>
             set (sort_key rank (sorted_list_of_set (insert x (whitelist g)))) =
               insert x (whitelist g) \<and>
             distinct (sort_key rank (sorted_list_of_set (insert x (whitelist g))))"
    if "finite (whitelist g)" and "x \<notin> whitelist g" for rank
    using that by (simp only: add_user_def save_whitelist_def) simp
  then have "\<exists>us. WHITELIST_FILE (snd (add_user g (Written rank) x)) = Stored us \<and>
               set us = insert x (whitelist g) \<and> distinct us"
    if "finite (whitelist g)" and "x \<notin> whitelist g" for rank
    using that by blast
  then show ?thesis
    by (simp add: add_user_def remove_user_def is_allowed_def save_whitelist_def
          del: sorted_list_of_set.sorted_key_list_of_set_insert_remove)
qed

theorem allowlist_round_trip_witness:
  "is_allowed (snd (add_user example_gate (Written (first_rank 2)) 2)) 2 \<and>
   \<not> is_allowed (snd (remove_user example_gate (Written (first_rank 2)) 1)) 1 \<and>
   add_user example_gate (Written (first_rank 2)) 1 = (False, example_gate) \<and>
   fst (add_user example_gate (Written (first_rank 2)) 2) \<and>
   save_calls (snd (add_user example_gate (Written (first_rank 2)) 2)) = 1 \<and>
   finite (whitelist example_gate) \<and>
   (\<exists>us. WHITELIST_FILE (snd (add_user example_gate (Written (first_rank 2)) 2)) = Stored us \<and>
         set us = {1, 2} \<and> distinct us) \<and>
   WHITELIST_FILE (snd (add_user example_gate (Written (first_rank 2)) 2)) = Stored [2, 1]"
proof -
  have "WHITELIST_FILE (snd (add_user example_gate (Written (first_rank 2)) 2)) = Stored [2, 1]"
    by (simp add: add_user_def save_whitelist_def example_gate_def first_rank_def
          sorted_list_of_set_insert_remove)
  then show ?thesis
    using allowlist_round_trip [of example_gate "Written (first_rank 2)" 2]
          allowlist_round_trip [of example_gate "Written (first_rank 2)" 1]
    by (auto simp add: example_gate_def)
qed

text \<open>
  C4, as the spec has it, at a corrupt file: the load returns and the set is empty, but
  the file is still the corrupt one and the save routine has not been called, so no
  fresh store has been written.
\<close>

theorem failed_load_writes_no_store:
  "init_gate Corrupt (Written (first_rank 0)) =
     Inr \<lparr>whitelist = {}, WHITELIST_FILE = Corrupt, save_calls = 0\<rparr> \<and>
   WHITELIST_FILE \<lparr>whitelist = {}, WHITELIST_FILE = Corrupt, save_calls = 0\<rparr> \<noteq> Stored []"
  by (simp add: init_gate_def load_whitelist_def load_whitelist_try_def)

text \<open>
  C4, amended. If loading the backing store fails (the file is corrupt or unreadable),
  the call returns, the in-memory set is empty, and nothing else changes: the file is
  left as it was found and the save routine is not called. A fresh store is written
  only when the file is absent: then the set is empty and the save routine is called
  once.
\<close>

theorem failed_load_falls_back_to_empty:
  "(WHITELIST_FILE g = Corrupt \<or> WHITELIST_FILE g = Unreadable \<longrightarrow>
      load_whitelist g w = Inr (g\<lparr>whitelist := {}\<rparr>)) \<and>
   (WHITELIST_FILE g = Absent \<longrightarrow>
      load_whitelist g w = Inr (save_whitelist (g\<lparr>whitelist := {}\<rparr>) w))"
  by (auto simp add: load_whitelist_def load_whitelist_try_def)

theorem failed_load_falls_back_to_empty_witness:
  "load_whitelist \<lparr>whitelist = {5}, WHITELIST_FILE = Unreadable, save_calls = 3\<rparr>
       (Written (first_rank 0)) =
     Inr \<lparr>whitelist = {}, WHITELIST_FILE = Unreadable, save_calls = 3\<rparr> \<and>
   load_whitelist \<lparr>whitelist = {5}, WHITELIST_FILE = Absent, save_calls = 3\<rparr>
       (Written (first_rank 0)) =
     Inr \<lparr>whitelist = {}, WHITELIST_FILE = Stored [], save_calls = 4\<rparr>"
  using failed_load_falls_back_to_empty
          [of "\<lparr>whitelist = {5}, WHITELIST_FILE = Unreadable, save_calls = 3\<rparr>"
              "Written (first_rank 0)"]
        failed_load_falls_back_to_empty
          [of "\<lparr>whitelist = {5}, WHITELIST_FILE = Absent, save_calls = 3\<rparr>"
              "Written (first_rank 0)"]
  by (simp add: save_whitelist_def)

lemma count_list_distinct:
  "distinct xs \<Longrightarrow> count_list xs x = (if x \<in> set xs then 1 else 0)"
  by (induction xs) auto

text \<open>
  C10. Loading from a store whose user list is \<open>us\<close>, repetitions and all, returns with
  the in-memory allow-list equal to the set of the members of \<open>us\<close>; the listing of the
  allow-list has no repetition: every identity of \<open>us\<close> occurs in it exactly once and
  no other identity occurs.
\<close>

theorem load_removes_duplicates:
  "WHITELIST_FILE g = Stored us \<Longrightarrow>
   (\<exists>g'. load_whitelist g w = Inr g' \<and>
         whitelist g' = set us \<and>
         distinct (get_all_users g') \<and>
         (\<forall>x. count_list (get_all_users g') x = (if x \<in> set us then 1 else 0)))"
  by (simp add: load_whitelist_def load_whitelist_try_def get_all_users_def
        count_list_distinct)

theorem load_removes_duplicates_witness:
  "WHITELIST_FILE \<lparr>whitelist = {}, WHITELIST_FILE = Stored [3, 1, 3, 2, 1], save_calls = 0\<rparr> =
     Stored [3, 1, 3, 2, 1] \<and>
   (\<exists>g'. load_whitelist
           \<lparr>whitelist = {}, WHITELIST_FILE = Stored [3, 1, 3, 2, 1], save_calls = 0\<rparr>
           (Written (first_rank 0)) =
           Inr g' \<and>
         whitelist g' = {1, 2, 3} \<and>
         distinct (get_all_users g') \<and>
         count_list (get_all_users g') 3 = 1)"
  using load_removes_duplicates
          [of "\<lparr>whitelist = {}, WHITELIST_FILE = Stored [3, 1, 3, 2, 1], save_calls = 0\<rparr>"
              "[3, 1, 3, 2, 1]" "Written (first_rank 0)"]
  by auto

section \<open>Properties of the session lifecycle manager\<close>

lemma seq_filter:
  assumes "filter Q (snd m) = []" and "\<And>v. filter Q (snd (f v)) = []"
  shows "filter Q (snd (seq m f)) = []"
proof (cases m)
  case (Pair r tr)
  show ?thesis
  proof (cases r)
    case (Inl e)
    with Pair assms(1) show ?thesis by (simp add: seq_def)
  next
    case (Inr v)
    obtain r' tr' where f: "f v = (r', tr')" by (cases "f v")
    from assms(2) [of v] f have "filter Q tr' = []" by simp
    with Pair Inr f assms(1) show ?thesis by (simp add: seq_def)
  qed
qed

lemma call_filter: "\<not> Q (a, r) \<Longrightarrow> filter Q (snd (call a r)) = []"
  by (simp add: call_def)

lemma call_value_filter:
  "(\<And>x. \<not> Q (a, x)) \<Longrightarrow> filter Q (snd (call_value a r)) = []"
  by (simp add: call_value_def)

lemma if_filter:
  "filter Q (snd x) = [] \<Longrightarrow> filter Q (snd y) = [] \<Longrightarrow>
   filter Q (snd (if b then x else y)) = []"
  by simp

lemma monitor_try_no_disconnect:
  "filter (\<lambda>ev. fst ev = Disconnect c) (snd (monitor_try env data)) = []"
  unfolding monitor_try_def
  by (intro seq_filter if_filter call_filter call_value_filter) simp_all

lemma monitor_except_no_disconnect:
  "filter (\<lambda>ev. fst ev = Disconnect c) (snd (monitor_except st env user_id e)) = []"
  by (simp add: monitor_except_def call_def split: exn.splits option.splits)

lemma cleanup_session_present:
  "active_sessions st user_id = Some data \<Longrightarrow>
   snd (snd (cleanup_session st d user_id)) = [(Disconnect (client data), d)]"
  by (simp add: cleanup_session_def py_del_def split: option.splits)

lemma cleanup_session_absent:
  "active_sessions (fst (snd (cleanup_session st d user_id))) user_id = None \<and>
   user_messages (fst (snd (cleanup_session st d user_id))) user_id = None"
  by (simp add: cleanup_session_def py_del_def split: option.splits)

text \<open>
  C9. \<^verbatim>\<open>cleanup_session\<close> never raises, whatever the tables hold and whatever
  \<^verbatim>\<open>disconnect()\<close> does; afterwards the owner is in neither \<^verbatim>\<open>active_sessions\<close> nor
  \<^verbatim>\<open>user_messages\<close>; and a second call right after the first changes nothing and calls
  nothing.
\<close>

theorem cleanup_session_total_idempotent:
  "fst (cleanup_session st d user_id) = Inr () \<and>
   active_sessions (fst (snd (cleanup_session st d user_id))) user_id = None \<and>
   user_messages (fst (snd (cleanup_session st d user_id))) user_id = None \<and>
   cleanup_session (fst (snd (cleanup_session st d user_id))) d' user_id =
     (Inr (), fst (snd (cleanup_session st d user_id)), [])"
  by (simp add: cleanup_session_def py_del_def split: option.splits)

theorem cleanup_session_total_idempotent_witness:
  "fst (cleanup_session example_manager (Some OSError) 100) = Inr () \<and>
   snd (snd (cleanup_session example_manager (Some OSError) 100)) =
     [(Disconnect 1, Some OSError)] \<and>
   active_sessions (fst (snd (cleanup_session example_manager (Some OSError) 100))) 100 = None \<and>
   user_messages (fst (snd (cleanup_session example_manager (Some OSError) 100))) 100 = None \<and>
   snd (snd (cleanup_session (fst (snd (cleanup_session example_manager (Some OSError) 100)))
     None 100)) = [] \<and>
   fst (cleanup_session new_manager None 100) = Inr ()"
  using cleanup_session_total_idempotent [of example_manager "Some OSError" 100 None]
        cleanup_session_total_idempotent [of new_manager None 100 None]
        cleanup_session_present [of example_manager 100 example_session "Some OSError"]
  by (simp add: example_manager_def example_session_def)

text \<open>
  Within one run of a monitoring task whose record is still the owner's record when
  its \<^verbatim>\<open>try\<close> block is left, by whatever way (delivery, timeout, refused authorization,
  any call raising anything): the \<^verbatim>\<open>finally\<close> block runs, the task itself makes exactly
  one \<^verbatim>\<open>disconnect()\<close> call on that record's client, and when the task ends the owner
  has no record in the table.
\<close>

lemma finally_runs_cleanup_once:
  assumes "active_sessions st user_id = Some data"
  shows "length (filter (\<lambda>ev. fst ev = Disconnect (client data))
           (snd (snd (start_qr_monitoring_from st env user_id data)))) = 1 \<and>
         active_sessions (fst (snd (start_qr_monitoring_from st env user_id data))) user_id =
           None \<and>
         start_qr_monitoring st env user_id = start_qr_monitoring_from st env user_id data"
proof -
  obtain r tr where t: "monitor_try env data = (r, tr)"
    by (cases "monitor_try env data")
  obtain r2 tr2 where h:
    "(case r of Inr u \<Rightarrow> (Inr (), []) | Inl e \<Rightarrow> monitor_except st env user_id e) = (r2, tr2)"
    by (cases "case r of Inr u \<Rightarrow> (Inr (), []) | Inl e \<Rightarrow> monitor_except st env user_id e")
  obtain r3 st' tr3 where c: "cleanup_session st (disconnect_220 env) user_id = (r3, st', tr3)"
    by (cases "cleanup_session st (disconnect_220 env) user_id")
  have 1: "filter (\<lambda>ev. fst ev = Disconnect (client data)) tr = []"
    using monitor_try_no_disconnect [of "client data" env data] t by simp
  have 2: "filter (\<lambda>ev. fst ev = Disconnect (client data)) tr2 = []"
  proof (cases r)
    case (Inl e)
    with h have "monitor_except st env user_id e = (r2, tr2)" by simp
    then show ?thesis
      using monitor_except_no_disconnect [of "client data" st env user_id e] by simp
  next
    case (Inr u)
    with h show ?thesis by auto
  qed
  have 3: "tr3 = [(Disconnect (client data), disconnect_220 env)]"
    using cleanup_session_present [OF assms, of "disconnect_220 env"] c by simp
  have 4: "active_sessions st' user_id = None"
    using cleanup_session_absent [of st "disconnect_220 env" user_id] c by simp
  have "start_qr_monitoring_from st env user_id data =
          ((case r3 of Inl e \<Rightarrow> Inl e | Inr u \<Rightarrow> r2), st', tr @ tr2 @ tr3)"
    by (simp add: start_qr_monitoring_from_def t h c)
  with 1 2 3 4 assms show ?thesis by (simp add: start_qr_monitoring_def)
qed

text \<open>
  C3, on the code. Owner 100 has a session on client 1 whose monitoring task is
  waiting. A second \<^verbatim>\<open>create_qr_session\<close> for owner 100 calls \<^verbatim>\<open>disconnect()\<close> on
  client 1 (line 121) and then fails at \<^verbatim>\<open>connect()\<close>, leaving the record in the table.
  The wait of the first task then raises, and its \<^verbatim>\<open>finally\<close> block calls
  \<^verbatim>\<open>disconnect()\<close> on client 1 again (line 220): the release routine has been invoked
  twice on that record's connection before the record leaves the table.
\<close>

theorem failed_recreate_releases_twice:
  "create_qr_session example_manager (second_create_env\<lparr>connect_141 := Some OSError\<rparr>) 100 20 =
     ((False, QrError OSError), example_manager,
      [(Disconnect 1, None), (Connect 2, Some OSError)]) \<and>
   start_qr_monitoring_from example_manager (example_env\<lparr>qr_wait := FailsAt 2 OSError\<rparr>) 100
       example_session =
     (Inr (), new_manager,
      [(Answer 10 WaitingForScan, None), (WaitFor 7 120, Some OSError),
       (Answer 10 (ErrorText OSError), None), (Disconnect 1, None)]) \<and>
   length (filter (\<lambda>ev. fst ev = Disconnect (client example_session))
     (snd (snd (create_qr_session example_manager
                  (second_create_env\<lparr>connect_141 := Some OSError\<rparr>) 100 20)) @
      snd (snd (start_qr_monitoring_from example_manager
                  (example_env\<lparr>qr_wait := FailsAt 2 OSError\<rparr>) 100 example_session)))) = 2"
  by (simp add: create_qr_session_def create_qr_session_try_def
        start_qr_monitoring_from_def monitor_try_def monitor_except_def
        cleanup_session_def py_del_def seq_def call_def call_value_def wait_for_def
        new_manager_def second_create_env_def example_manager_def example_session_def
        example_env_def)

text \<open>
  C7. When the first message has gone out, the ticket resolves before the deadline,
  the "scanned" notice has gone out and the connection then reports that it is not
  authorized: the task has slept three seconds between the notice and the check, its
  next call is the edit that shows the "confirm the login" text, and after that (and
  the error report, if that edit raised) it disconnects the client. No call of the
  task exports the session or sends it, as a document or inline, and the owner has no
  record afterwards.
\<close>

theorem unauthorized_after_scan_fails:
  assumes "active_sessions st user_id = Some data"
    and "answer_170 env = None" and "qr_wait env = ResolvesAt s" and "s < 120"
    and "edit_text_177 env = None" and "is_user_authorized_180 env = Inr False"
  shows "snd (snd (start_qr_monitoring st env user_id)) =
           [(Answer (message data) WaitingForScan, None),
            (WaitFor (qr_login data) 120, None),
            (EditText (message data) ScannedChecking, None),
            (Sleep 3, None),
            (IsUserAuthorized (client data), None),
            (EditText (message data) AuthNotCompleted, edit_text_184 env)] @
           (case edit_text_184 env of
              None \<Rightarrow> []
            | Some e \<Rightarrow> snd (monitor_except st env user_id e)) @
           [(Disconnect (client data), disconnect_220 env)] \<and>
         (\<forall>ev \<in> set (snd (snd (start_qr_monitoring st env user_id))). \<forall>t x c.
            fst ev \<noteq> SessionSave c \<and> fst ev \<noteq> AnswerDocument t x \<and>
            fst ev \<noteq> Answer t (SessionString x)) \<and>
         active_sessions (fst (snd (start_qr_monitoring st env user_id))) user_id = None"
  using assms
  by (cases "edit_text_184 env")
     (auto simp add: start_qr_monitoring_def start_qr_monitoring_from_def monitor_try_def
        monitor_except_def cleanup_session_def py_del_def seq_def call_def call_value_def
        wait_for_def split: option.splits exn.splits)

theorem unauthorized_after_scan_fails_witness:
  "active_sessions example_manager 100 = Some example_session \<and>
   start_qr_monitoring example_manager
      (example_env\<lparr>is_user_authorized_180 := Inr False\<rparr>) 100 =
     (Inr (), new_manager,
      [(Answer 10 WaitingForScan, None), (WaitFor 7 120, None),
       (EditText 10 ScannedChecking, None), (Sleep 3, None), (IsUserAuthorized 1, None),
       (EditText 10 AuthNotCompleted, None), (Disconnect 1, None)])"
proof -
  have "snd (snd (start_qr_monitoring example_manager
          (example_env\<lparr>is_user_authorized_180 := Inr False\<rparr>) 100)) =
        [(Answer 10 WaitingForScan, None), (WaitFor 7 120, None),
         (EditText 10 ScannedChecking, None), (Sleep 3, None), (IsUserAuthorized 1, None),
         (EditText 10 AuthNotCompleted, None), (Disconnect 1, None)]"
    using unauthorized_after_scan_fails
            [of example_manager 100 example_session
                "example_env\<lparr>is_user_authorized_180 := Inr False\<rparr>" 5]
    by (simp add: example_manager_def example_session_def example_env_def)
  moreover have "fst (start_qr_monitoring example_manager
          (example_env\<lparr>is_user_authorized_180 := Inr False\<rparr>) 100) = Inr () \<and>
        fst (snd (start_qr_monitoring example_manager
          (example_env\<lparr>is_user_authorized_180 := Inr False\<rparr>) 100)) = new_manager"
    by (simp add: start_qr_monitoring_def start_qr_monitoring_from_def monitor_try_def
          cleanup_session_def py_del_def seq_def call_def call_value_def wait_for_def
          example_manager_def example_session_def example_env_def new_manager_def)
  ultimately show ?thesis
    by (simp add: example_manager_def prod_eq_iff)
qed

text \<open>
  C5. A session made by \<^verbatim>\<open>create_qr_session\<close> (so the owner is in both tables) whose
  first message has gone out and whose ticket never resolves, or resolves only after
  more than 120 seconds of waiting: the wait ends in \<^verbatim>\<open>TimeoutError\<close>, the task's
  next call sends the timeout text to the owner's delivery target (it is delivered
  unless that \<^verbatim>\<open>answer\<close> itself raises), then the client is disconnected, the owner has
  no record afterwards, and a \<^verbatim>\<open>check\<close> from the owner, if still on the allow-list,
  is answered "no active session".
\<close>

theorem timeout_closes_session:
  assumes "active_sessions st user_id = Some data" and "user_messages st user_id = Some m"
    and "answer_170 env = None"
    and "qr_wait env = Never \<or> (\<exists>s. 120 < s \<and> qr_wait env = ResolvesAt s)"
  shows "snd (snd (start_qr_monitoring st env user_id)) =
           [(Answer (message data) WaitingForScan, None),
            (WaitFor (qr_login data) 120, Some TimeoutError),
            (Answer m WaitTimedOut, answer_except env),
            (Disconnect (client data), disconnect_220 env)] \<and>
         active_sessions (fst (snd (start_qr_monitoring st env user_id))) user_id = None \<and>
         (is_allowed g user_id \<longrightarrow>
            snd (cmd_check henv
                  \<lparr>whitelist_manager = g,
                   manager = fst (snd (start_qr_monitoring st env user_id)),
                   ADMIN_ID = a\<rparr>
                  \<lparr>from_user = user_id, event_text = t, chat = c\<rparr>) =
              [sent (Answer c NoActiveSession)])"
  using assms
  by (auto simp add: start_qr_monitoring_def start_qr_monitoring_from_def monitor_try_def
        monitor_except_def cleanup_session_def py_del_def seq_def call_def call_value_def
        wait_for_def cmd_check_def split: option.splits)

theorem timeout_closes_session_witness:
  "fst (snd (create_qr_session new_manager first_create_env 100 10)) = example_manager \<and>
   active_sessions example_manager 100 = Some example_session \<and>
   user_messages example_manager 100 = Some 10 \<and>
   snd (snd (start_qr_monitoring example_manager (example_env\<lparr>qr_wait := ResolvesAt 121\<rparr>) 100)) =
     [(Answer 10 WaitingForScan, None), (WaitFor 7 120, Some TimeoutError),
      (Answer 10 WaitTimedOut, None), (Disconnect 1, None)] \<and>
   active_sessions (fst (snd (start_qr_monitoring example_manager
      (example_env\<lparr>qr_wait := ResolvesAt 121\<rparr>) 100))) 100 = None \<and>
   snd (cmd_check example_handler_env
          \<lparr>whitelist_manager = whitelist_manager example_bot_100,
           manager = fst (snd (start_qr_monitoring example_manager
              (example_env\<lparr>qr_wait := ResolvesAt 121\<rparr>) 100)),
           ADMIN_ID = 1\<rparr>
          \<lparr>from_user = 100, event_text = Some ''/check'', chat = 5\<rparr>) =
     [sent (Answer 5 NoActiveSession)]"
proof -
  have "fst (snd (create_qr_session new_manager first_create_env 100 10)) = example_manager"
    by (simp add: create_qr_session_def create_qr_session_try_def seq_def call_def
          call_value_def new_manager_def first_create_env_def example_manager_def
          example_session_def)
  then show ?thesis
    using timeout_closes_session
            [of example_manager 100 example_session 10
                "example_env\<lparr>qr_wait := ResolvesAt 121\<rparr>"
                "whitelist_manager example_bot_100" example_handler_env 1
                "Some ''/check''" 5]
    by (simp add: example_manager_def example_session_def example_env_def
          example_bot_100_def is_allowed_def)
qed

text \<open>
  C2, on the code. Owner 100 has a session on client 1. A second
  \<^verbatim>\<open>create_qr_session\<close> for owner 100 calls \<^verbatim>\<open>disconnect()\<close> on client 1 and then
  fails, at \<^verbatim>\<open>connect()\<close> in the first run and at \<^verbatim>\<open>qr_login()\<close> (the beginning of the
  handshake) in the second. Either way the call returns \<^verbatim>\<open>False\<close> and the table is the
  one the call found: the old record, whose connection has been released, is still
  under the owner's key, and a \<^verbatim>\<open>check\<close> from the owner reports an active session.
\<close>

theorem failed_create_keeps_old_record:
  "create_qr_session example_manager (second_create_env\<lparr>connect_141 := Some OSError\<rparr>) 100 20 =
     ((False, QrError OSError), example_manager,
      [(Disconnect 1, None), (Connect 2, Some OSError)]) \<and>
   create_qr_session example_manager
       (second_create_env\<lparr>qr_login_144 := Inl OtherError\<rparr>) 100 20 =
     ((False, QrError OtherError), example_manager,
      [(Disconnect 1, None), (Connect 2, None), (QrLogin 2, Some OtherError)]) \<and>
   active_sessions example_manager 100 = Some example_session \<and>
   cmd_check example_handler_env
       (example_bot_100\<lparr>manager := example_manager\<rparr>) (message_from_100 ''/check'') =
     (example_bot_100\<lparr>manager := example_manager\<rparr>, [sent (Answer 5 (SessionActive 130))])"
  by (simp add: create_qr_session_def create_qr_session_try_def seq_def call_def call_value_def
        second_create_env_def example_manager_def example_session_def cmd_check_def
        is_allowed_def example_bot_100_def example_handler_env_def message_from_100_def)

text \<open>
  The path on which the second call succeeds: \<^verbatim>\<open>disconnect()\<close> on the old record's
  client comes first, whatever it does (a raise is swallowed); the call succeeds
  exactly when \<^verbatim>\<open>connect()\<close> and \<^verbatim>\<open>qr_login()\<close> both return, and then the owner's
  entry is the new record, written over the old one.
\<close>

lemma create_replaces_old_session:
  assumes "active_sessions st user_id = Some old"
  shows "hd (snd (snd (create_qr_session st env user_id msg))) =
           (Disconnect (client old), disconnect_121 env) \<and>
         fst (fst (create_qr_session st env user_id msg)) =
           (connect_141 env = None \<and> isl (qr_login_144 env) = False) \<and>
         (fst (fst (create_qr_session st env user_id msg)) \<longrightarrow>
            active_sessions (fst (snd (create_qr_session st env user_id msg))) user_id =
              Some \<lparr>client = new_client env, qr_login = fst (projr (qr_login_144 env)),
                    created_at = now_149 env, message = msg\<rparr> \<and>
            user_messages (fst (snd (create_qr_session st env user_id msg))) user_id = Some msg \<and>
            snd (fst (create_qr_session st env user_id msg)) =
              QrUrl (snd (projr (qr_login_144 env))))"
  using assms
  by (cases "connect_141 env"; cases "qr_login_144 env")
     (auto simp add: create_qr_session_def create_qr_session_try_def seq_def call_def
        call_value_def split: prod.splits)

text \<open>
  C1, on the code. Owner 100 creates a session (client 1), its monitoring task starts
  and captures that record; one second later owner 100 creates a second session
  (client 2), which replaces the record. When the first task's wait then times out, the
  task sends the timeout text to the second session's delivery target, calls
  \<^verbatim>\<open>disconnect()\<close> on client 2 and removes the second session's record: the table is
  empty again.
\<close>

theorem displaced_task_closes_new_session:
  "create_qr_session new_manager first_create_env 100 10 =
     ((True, QrUrl ''tg://login?token=A''), example_manager,
      [(Connect 1, None), (QrLogin 1, None)]) \<and>
   active_sessions example_manager 100 = Some example_session \<and>
   create_qr_session example_manager second_create_env 100 20 =
     ((True, QrUrl ''tg://login?token=B''), displaced_manager,
      [(Disconnect 1, None), (Connect 2, None), (QrLogin 2, None)]) \<and>
   start_qr_monitoring_from displaced_manager (example_env\<lparr>qr_wait := Never\<rparr>) 100
       example_session =
     (Inr (), new_manager,
      [(Answer 10 WaitingForScan, None), (WaitFor 7 120, Some TimeoutError),
       (Answer 20 WaitTimedOut, None), (Disconnect 2, None)])"
  by (simp add: create_qr_session_def create_qr_session_try_def
        start_qr_monitoring_from_def monitor_try_def monitor_except_def
        cleanup_session_def py_del_def seq_def call_def call_value_def wait_for_def
        new_manager_def first_create_env_def second_create_env_def example_manager_def
        example_session_def example_env_def displaced_manager_def)

section \<open>Properties of the admission rule\<close>

lemma public_command_token:
  "is_public_command m \<Longrightarrow>
     (\<exists>cs. event_text m = Some (CHR ''/'' # cs) \<and>
        (lower (takeWhile (\<lambda>x. x \<noteq> CHR '' '') cs) = ''start'' \<or>
         lower (takeWhile (\<lambda>x. x \<noteq> CHR '' '') cs) = ''help''))"
  by (auto simp add: is_public_command_def public_commands_def
        split: option.splits list.splits)

text \<open>
  C6. For a sender that is not on the allow-list, whichever handler the router has
  chosen: a message that is not a public command is answered with the access-denied
  text and the handler does not run, so both managers are as before; a message that is
  a public command starts with a slash followed, up to the first blank and in any
  letter case, by \<open>start\<close> or \<open>help\<close>, and the handlers of those two commands answer
  without changing anything; the "create session" callback answers with the no-access
  alert, creates no record and starts no task. For a sender other than the configured
  admin, whichever handler runs, the allow-list (set, file and write count) is as
  before, and the listing, add, remove and diagnostics handlers answer with the
  admin-only text when they are reached at all. The callback never changes the
  allow-list.
\<close>

theorem admission_rule:
  "(\<not> is_allowed (whitelist_manager b) (from_user m) \<longrightarrow>
      (\<not> is_public_command m \<longrightarrow>
         on_message h env b m = (b, [sent (Answer (chat m) AccessDenied)])) \<and>
      (is_public_command m \<longrightarrow>
         (\<exists>cs. event_text m = Some (CHR ''/'' # cs) \<and>
            (lower (takeWhile (\<lambda>x. x \<noteq> CHR '' '') cs) = ''start'' \<or>
             lower (takeWhile (\<lambda>x. x \<noteq> CHR '' '') cs) = ''help'')) \<and>
         on_message CmdStart env b m = (b, [sent (Answer (chat m) WelcomeNotListed)]) \<and>
         on_message CmdHelp env b m =
           (b, [sent (Answer (chat m) (HelpText (is_admin b (from_user m))))])) \<and>
      (from_user m \<noteq> ADMIN_ID b \<longrightarrow> fst (on_message h env b m) = b) \<and>
      handle_qr_method cenv b (from_user m) tgt =
        (b, [sent (CallbackAnswer NoAccessAlert)])) \<and>
   (from_user m \<noteq> ADMIN_ID b \<longrightarrow>
      whitelist_manager (fst (on_message h env b m)) = whitelist_manager b \<and>
      (h \<in> {CmdWhitelist, CmdAddUser, CmdRemoveUser, CmdDebug} \<longrightarrow>
         on_message h env b m = (b, [sent (Answer (chat m) AdminOnly)]) \<or>
         on_message h env b m = (b, [sent (Answer (chat m) AccessDenied)]))) \<and>
   whitelist_manager (fst (handle_qr_method cenv b u tgt)) = whitelist_manager b"
  using public_command_token [of m]
  by (cases h)
     (auto simp add: on_message_def whitelist_middleware_def cmd_start_def cmd_help_def
        cmd_whitelist_def cmd_add_user_def cmd_remove_user_def cmd_check_def cmd_debug_def
        handle_qr_method_def is_admin_def split: prod.splits option.splits)

lemma is_public_command_start: "is_public_command (message_from_100 ''/START now'')"
  by code_simp

lemma is_public_command_add: "\<not> is_public_command (message_from_100 ''/add 100'')"
  by code_simp

theorem admission_rule_witness:
  "\<not> is_allowed (whitelist_manager example_bot) 100 \<and>
   \<not> is_public_command (message_from_100 ''/add 100'') \<and>
   on_message CmdAddUser example_handler_env example_bot (message_from_100 ''/add 100'') =
     (example_bot, [sent (Answer 5 AccessDenied)]) \<and>
   is_public_command (message_from_100 ''/START now'') \<and>
   on_message CmdStart example_handler_env example_bot (message_from_100 ''/START now'') =
     (example_bot, [sent (Answer 5 WelcomeNotListed)]) \<and>
   handle_qr_method first_create_env example_bot 100 5 =
     (example_bot, [sent (CallbackAnswer NoAccessAlert)]) \<and>
   is_allowed (whitelist_manager example_bot_100) 100 \<and>
   on_message CmdAddUser example_handler_env example_bot_100 (message_from_100 ''/add 100'') =
     (example_bot_100, [sent (Answer 5 AdminOnly)])"
proof -
  have 1: "\<not> is_allowed (whitelist_manager example_bot) 100"
    by (simp add: is_allowed_def example_bot_def example_gate_def)
  have 2: "is_allowed (whitelist_manager example_bot_100) 100"
    by (simp add: is_allowed_def example_bot_100_def)
  have 3: "from_user (message_from_100 t) = 100 \<and> chat (message_from_100 t) = 5" for t
    by (simp add: message_from_100_def)
  have 4: "ADMIN_ID example_bot = 1 \<and> ADMIN_ID example_bot_100 = 1"
    by (simp add: example_bot_def example_bot_100_def)
  have 5: "on_message CmdAddUser example_handler_env example_bot_100
             (message_from_100 ''/add 100'') \<noteq>
           (example_bot_100, [sent (Answer 5 AccessDenied)])"
    using 2 3 [of "''/add 100''"] 4
    by (simp add: on_message_def whitelist_middleware_def cmd_add_user_def is_admin_def
          sent_def)
  show ?thesis
    using admission_rule
            [of example_bot "message_from_100 ''/add 100''" CmdAddUser example_handler_env
                first_create_env 5 100]
          admission_rule
            [of example_bot "message_from_100 ''/START now''" CmdStart example_handler_env
                first_create_env 5 100]
          admission_rule
            [of example_bot_100 "message_from_100 ''/add 100''" CmdAddUser
                example_handler_env first_create_env 5 100]
          1 2 3 4 5 is_public_command_start is_public_command_add
    by simp
qed

end
